theory Spec2Isabelle
  imports Complex_Main
begin

unbundle bit_operations_syntax

section \<open>JavaScript values used by the program\<close>

text \<open>
  A \<^verbatim>\<open>number\<close> is an IEEE double. The program only compares numbers, adds and
  subtracts them, and converts them to \<^verbatim>\<open>bigint\<close>. A finite double is a rational
  number, so a finite number is modelled by its rational value; the two infinities and
  NaN are separate values. Addition and subtraction of finite numbers are exact here: the
  rounding of doubles (which only shows beyond \<open>2 ^ 53\<close> on integers) is not modelled.
\<close>

datatype number = Fin rat | PosInf | NegInf | NaN

text \<open>Relational operators: every comparison with NaN is false.\<close>

fun num_lt :: "number \<Rightarrow> number \<Rightarrow> bool" where
  "num_lt NaN _ = False"
| "num_lt _ NaN = False"
| "num_lt (Fin a) (Fin b) = (a < b)"
| "num_lt NegInf NegInf = False"
| "num_lt NegInf _ = True"
| "num_lt _ NegInf = False"
| "num_lt PosInf _ = False"
| "num_lt _ PosInf = True"

text \<open>\<^verbatim>\<open>a === b\<close> on two numbers.\<close>

fun num_seq :: "number \<Rightarrow> number \<Rightarrow> bool" where
  "num_seq NaN _ = False"
| "num_seq _ NaN = False"
| "num_seq a b = (a = b)"

definition num_gt :: "number \<Rightarrow> number \<Rightarrow> bool" where
  "num_gt a b = num_lt b a"

definition num_le :: "number \<Rightarrow> number \<Rightarrow> bool" where
  "num_le a b = (num_lt a b \<or> num_seq a b)"

definition num_ge :: "number \<Rightarrow> number \<Rightarrow> bool" where
  "num_ge a b = num_le b a"

text \<open>Unary minus, unary plus, binary plus and minus.\<close>

fun num_neg :: "number \<Rightarrow> number" where
  "num_neg (Fin a) = Fin (- a)"
| "num_neg PosInf = NegInf"
| "num_neg NegInf = PosInf"
| "num_neg NaN = NaN"

definition num_pos :: "number \<Rightarrow> number" where
  "num_pos a = a"

fun num_add :: "number \<Rightarrow> number \<Rightarrow> number" where
  "num_add NaN _ = NaN"
| "num_add _ NaN = NaN"
| "num_add (Fin a) (Fin b) = Fin (a + b)"
| "num_add PosInf NegInf = NaN"
| "num_add NegInf PosInf = NaN"
| "num_add PosInf _ = PosInf"
| "num_add NegInf _ = NegInf"
| "num_add _ b = b"

definition num_sub :: "number \<Rightarrow> number \<Rightarrow> number" where
  "num_sub a b = num_add a (num_neg b)"

text \<open>The number that a string length or another natural number is.\<close>

definition num_of_nat :: "nat \<Rightarrow> number" where
  "num_of_nat n = Fin (of_nat n)"

definition num_of_int :: "int \<Rightarrow> number" where
  "num_of_int n = Fin (of_int n)"

text \<open>
  \<^verbatim>\<open>Math.min(...xs)\<close>: \<^verbatim>\<open>Infinity\<close> for no argument, NaN as soon as one
  argument is NaN.
\<close>

definition min2 :: "number \<Rightarrow> number \<Rightarrow> number" where
  "min2 a b = (if a = NaN \<or> b = NaN then NaN else if num_lt b a then b else a)"

definition Math_min :: "number list \<Rightarrow> number" where
  "Math_min xs = foldl min2 PosInf xs"

text \<open>
  A value of type \<^verbatim>\<open>number | bigint\<close>. A \<^verbatim>\<open>bigint\<close> is an unbounded integer
  (the engine's limit on the size of a bigint is not modelled).
\<close>

datatype numeric = Num number | Big int

text \<open>
  \<^verbatim>\<open>a === b\<close> on \<^verbatim>\<open>number | bigint\<close>: operands of different types are never
  strictly equal, so \<^verbatim>\<open>0n === 0\<close> is false.
\<close>

fun strict_eq :: "numeric \<Rightarrow> numeric \<Rightarrow> bool" where
  "strict_eq (Num a) (Num b) = num_seq a b"
| "strict_eq (Big a) (Big b) = (a = b)"
| "strict_eq _ _ = False"

text \<open>The failures of the program, one constructor for each throw site or built-in error.\<close>

datatype error =
    RangeError
  | ShapeAssert
  | NotPowerOfTwo int
  | Thrown string
  | MatchAssert string
  | SliceStartAssert number number
  | SliceStopAssert number number
  | SliceOrderAssert number number
  | StepZeroAssert
  | StepNotPositiveAssert
  | ArgCountAssert nat

text \<open>
  \<^verbatim>\<open>BigInt(n)\<close>: the identity on a bigint; on a number it raises a RangeError unless
  the number is an integer.
\<close>

fun BigInt :: "numeric \<Rightarrow> error + int" where
  "BigInt (Big b) = Inr b"
| "BigInt (Num (Fin q)) = (if q = of_int \<lfloor>q\<rfloor> then Inr \<lfloor>q\<rfloor> else Inl RangeError)"
| "BigInt (Num _) = Inl RangeError"

text \<open>
  \<^verbatim>\<open>x << n\<close> and \<^verbatim>\<open>x >> n\<close> on bigints: a negative count shifts the other way, and
  the right shift keeps the sign (it is the floor of the division by \<open>2 ^ n\<close>).
\<close>

definition bigint_shl :: "int \<Rightarrow> int \<Rightarrow> int" where
  "bigint_shl x n = (if 0 \<le> n then push_bit (nat n) x else drop_bit (nat (- n)) x)"

definition bigint_shr :: "int \<Rightarrow> int \<Rightarrow> int" where
  "bigint_shr x n = (if 0 \<le> n then drop_bit (nat n) x else push_bit (nat (- n)) x)"

text \<open>\<^verbatim>\<open>n.toString(2)\<close> on a bigint: the binary digits, after a minus sign if negative.\<close>

function digits2 :: "nat \<Rightarrow> string" where
  "digits2 n =
     (if n < 2 then [if n = 0 then CHR ''0'' else CHR ''1'']
      else digits2 (n div 2) @ [if even n then CHR ''0'' else CHR ''1''])"
  by pat_completeness auto
termination
  by (relation "measure (\<lambda>n. n)") auto

declare digits2.simps [simp del]

definition toString2 :: "int \<Rightarrow> string" where
  "toString2 n = (if n < 0 then CHR ''-'' # digits2 (nat (- n)) else digits2 (nat n))"

section \<open>util.ts\<close>

text \<open>
  \<^verbatim>\<open>bitLength\<close>, on the bigints that \<^verbatim>\<open>log2_int\<close> passes to it (its only caller).
  The test \<^verbatim>\<open>n === 0\<close> compares the bigint with the number 0.
\<close>

definition bitLength :: "int \<Rightarrow> bool \<Rightarrow> nat" where
  "bitLength n0 zeroIsZero =
     (let n = (if n0 < 0 then - n0 else n0) in
      if strict_eq (Big n) (Num (Fin 0)) \<and> zeroIsZero then 0
      else length (toString2 n))"

definition log2_int :: "numeric \<Rightarrow> bool \<Rightarrow> error + nat" where
  "log2_int n0 need_pow2 =
     (if strict_eq n0 (Num (Fin 0)) then Inr 0
      else case BigInt n0 of
        Inl e \<Rightarrow> Inl e
      | Inr n \<Rightarrow>
          (let r = bitLength (n - 1) False in
           if need_pow2 \<and> bigint_shl 1 (int r) \<noteq> n then Inl (NotPowerOfTwo n)
           else Inr r))"

definition bitsFor :: "numeric \<Rightarrow> bool \<Rightarrow> error + nat" where
  "bitsFor n0 requireSignBit0 =
     (case BigInt n0 of
        Inl e \<Rightarrow> Inl e
      | Inr n \<Rightarrow>
          (let (requireSignBit, res) =
                 (if n > 0 then (requireSignBit0, log2_int (Big (n + 1)) False)
                  else (True, log2_int (Big (- n)) False))
           in case res of
                Inl e \<Rightarrow> Inl e
              | Inr r \<Rightarrow> if requireSignBit then Inr (r + 1) else Inr r))"

section \<open>ast.ts: Shape\<close>

record Shape =
  width :: number
  signed :: bool

definition Shape_new :: "number \<Rightarrow> bool \<Rightarrow> error + Shape" where
  "Shape_new w s =
     (if num_ge w (Fin 1) then Inr \<lparr>width = w, signed = s\<rparr> else Inl ShapeAssert)"

definition Shape_signed :: "number \<Rightarrow> error + Shape" where
  "Shape_signed w = Shape_new w True"

definition Shape_unsigned :: "number \<Rightarrow> error + Shape" where
  "Shape_unsigned w = Shape_new w False"

section \<open>ast.ts: Const.normalize\<close>

definition Const_normalize :: "int \<Rightarrow> Shape \<Rightarrow> error + int" where
  "Const_normalize value0 shape =
     (case BigInt (Num (width shape)) of
        Inl e \<Rightarrow> Inl e
      | Inr w \<Rightarrow>
          (let mask = bigint_shl 1 w - 1;
               value1 = value0 AND mask
           in if signed shape then
                (case BigInt (Num (num_sub (width shape) (Fin 1))) of
                   Inl e \<Rightarrow> Inl e
                 | Inr w1 \<Rightarrow>
                     if bigint_shr value1 w1 \<noteq> 0 then Inr (value1 OR NOT mask)
                     else Inr value1)
              else Inr value1))"

section \<open>types.ts: Range\<close>

record Range =
  start :: number
  stop :: number
  step :: number

text \<open>
  The constructor's argument: a number, an array of numbers, or an object with an
  optional \<^verbatim>\<open>start\<close>, a \<^verbatim>\<open>stop\<close> and an optional \<^verbatim>\<open>step\<close>.
\<close>

datatype RangeArgs =
    ArgNumber number
  | ArgArray "number list"
  | ArgNamed "number option" number "number option"

text \<open>\<^verbatim>\<open>if (args.step)\<close> on a step that is given: 0 and NaN are falsy.\<close>

definition truthy :: "number \<Rightarrow> bool" where
  "truthy x = (x \<noteq> Fin 0 \<and> x \<noteq> NaN)"

fun Range_new :: "RangeArgs \<Rightarrow> error + Range" where
  "Range_new (ArgNumber n) = Inr \<lparr>start = Fin 0, stop = n, step = Fin 1\<rparr>"
| "Range_new (ArgNamed a_start a_stop a_step) =
     (let r = \<lparr>start = (case a_start of None \<Rightarrow> Fin 0 | Some x \<Rightarrow> x),
                stop = a_stop,
                step = (case a_step of None \<Rightarrow> Fin 1 | Some x \<Rightarrow> x)\<rparr>
      in case a_step of
           None \<Rightarrow> Inr r
         | Some x \<Rightarrow>
             if truthy x \<and> num_seq x (Fin 0) then Inl StepZeroAssert
             else if truthy x \<and> \<not> num_gt x (Fin 0) then Inl StepNotPositiveAssert
             else Inr r)"
| "Range_new (ArgArray []) = Inl (ArgCountAssert 0)"
| "Range_new (ArgArray [a]) = Inr \<lparr>start = Fin 0, stop = a, step = Fin 1\<rparr>"
| "Range_new (ArgArray [a, b]) = Inr \<lparr>start = a, stop = b, step = Fin 1\<rparr>"
| "Range_new (ArgArray [a, b, c]) =
     (if num_seq c (Fin 0) then Inl StepZeroAssert
      else if \<not> num_gt c (Fin 0) then Inl StepNotPositiveAssert
      else Inr \<lparr>start = a, stop = b, step = c\<rparr>)"
| "Range_new (ArgArray args) = Inl (ArgCountAssert (length args))"

text \<open>
  The iterator is a generator, and with a step of 0 it yields for ever. The two loops
  take fuel, one unit for each test of the loop condition; the result is the list of
  the values yielded, or \<open>None\<close> when the fuel runs out before the loop ends.
\<close>

fun count_down :: "nat \<Rightarrow> number \<Rightarrow> number \<Rightarrow> number \<Rightarrow> number list option" where
  "count_down 0 current r_stop r_step = None"
| "count_down (Suc fuel) current r_stop r_step =
     (if num_gt current r_stop
      then map_option (Cons current) (count_down fuel (num_sub current r_step) r_stop r_step)
      else Some [])"

fun count_up :: "nat \<Rightarrow> number \<Rightarrow> number \<Rightarrow> number \<Rightarrow> number list option" where
  "count_up 0 current r_stop r_step = None"
| "count_up (Suc fuel) current r_stop r_step =
     (if num_lt current r_stop
      then map_option (Cons current) (count_up fuel (num_add current r_step) r_stop r_step)
      else Some [])"

definition Range_iterator :: "nat \<Rightarrow> Range \<Rightarrow> number list option" where
  "Range_iterator fuel r =
     (if num_seq (start r) (stop r) then Some []
      else if num_lt (stop r) (start r) then count_down fuel (start r) (stop r) (step r)
      else count_up fuel (start r) (stop r) (step r))"

section \<open>ast.ts: Shape.cast\<close>

text \<open>
  \<^verbatim>\<open>ShapeCastFrom\<close>, the union that \<^verbatim>\<open>Shape.cast\<close> tells apart at run time. An
  \<^verbatim>\<open>IDictionary<number>\<close> is the list of its entries, of which only the values are
  read.
\<close>

datatype ShapeCastFrom =
    OfShape Shape
  | OfNumber number
  | OfTuple number bool
  | OfRange Range
  | OfDictionary "(string \<times> number) list"

fun Shape_cast :: "ShapeCastFrom \<Rightarrow> error + Shape" where
  "Shape_cast (OfShape obj) = Shape_new (width obj) (signed obj)"
| "Shape_cast (OfNumber obj) = Shape_unsigned obj"
| "Shape_cast (OfTuple w s) = Shape_new w s"
| "Shape_cast (OfRange obj) =
     (let sgn = (num_lt (start obj) (Fin 0) \<or> num_lt (num_sub (stop obj) (step obj)) (Fin 0))
      in case bitsFor (Num (start obj)) sgn of
           Inl e \<Rightarrow> Inl e
         | Inr a \<Rightarrow>
             (case bitsFor (Num (num_sub (stop obj) (step obj))) sgn of
                Inl e \<Rightarrow> Inl e
              | Inr b \<Rightarrow> Shape_new (num_of_nat (max a b)) sgn))"
| "Shape_cast (OfDictionary obj) =
     (let mn = Math_min (map snd obj);
          mx = Math_min (map snd obj);
          sgn = (num_lt mn (Fin 0) \<or> num_lt mx (Fin 0))
      in case bitsFor (Num mn) sgn of
           Inl e \<Rightarrow> Inl e
         | Inr a \<Rightarrow>
             (case bitsFor (Num mx) sgn of
                Inl e \<Rightarrow> Inl e
              | Inr b \<Rightarrow> Shape_new (num_of_nat (max a b)) sgn))"

section \<open>ast.ts: Value and its subclasses\<close>

text \<open>
  The classes \<^verbatim>\<open>Const\<close>, \<^verbatim>\<open>AnyValue\<close>, \<^verbatim>\<open>Operator\<close> and \<^verbatim>\<open>Slice\<close> with their
  fields. The field \<^verbatim>\<open>src\<close> of the base class only records the place of the call for
  diagnostics and is left out; with the default \<^verbatim>\<open>__srcLoc\<close> the call that computes it
  does not fail. A \<^verbatim>\<open>ValueOp\<close> is one of a fixed set of strings.
\<close>

type_synonym ValueOp = string

datatype Value =
    Const int Shape
  | AnyValue Shape
  | Operator ValueOp "Value list"
  | Slice Value number number

datatype ValueCastFrom =
    OfValue Value
  | OfNum number
  | OfDict "(string \<times> number) list"

fun Value_cast :: "ValueCastFrom \<Rightarrow> error + Value" where
  "Value_cast (OfValue obj) = Inr obj"
| "Value_cast (OfNum obj) = Inl (Thrown [])"
| "Value_cast (OfDict obj) = Inl (Thrown [])"

text \<open>The getter \<^verbatim>\<open>shape\<close>: a field of Const and AnyValue, computed by the other two.\<close>

fun Value_shape :: "Value \<Rightarrow> error + Shape" where
  "Value_shape (Const v sh) = Inr sh"
| "Value_shape (AnyValue sh) = Inr sh"
| "Value_shape (Operator opr operands) = Inl (Thrown [])"
| "Value_shape (Slice v s_start s_stop) = Shape_new (num_sub s_stop s_start) False"

text \<open>
  \<^verbatim>\<open>/[^01*]+/.test(testStr)\<close>: the string has a character other than \<^verbatim>\<open>0\<close>,
  \<^verbatim>\<open>1\<close> and \<^verbatim>\<open>*\<close>.
\<close>

definition regex_test :: "string \<Rightarrow> bool" where
  "regex_test testStr = list_ex (\<lambda>c. c \<noteq> CHR ''0'' \<and> c \<noteq> CHR ''1'' \<and> c \<noteq> CHR ''*'') testStr"

text \<open>The \<^verbatim>\<open>forEach\<close> of \<^verbatim>\<open>matches\<close>: the first assertion that fails throws.\<close>

fun check_patterns :: "string list \<Rightarrow> error + unit" where
  "check_patterns [] = Inr ()"
| "check_patterns (testStr # rest) =
     (if regex_test testStr then check_patterns rest else Inl (MatchAssert testStr))"

definition Value_matches :: "Value \<Rightarrow> string list \<Rightarrow> error + bool" where
  "Value_matches v patterns =
     (case check_patterns patterns of
        Inl e \<Rightarrow> Inl e
      | Inr u \<Rightarrow> Inl (Thrown []))"

text \<open>The constructor of Const; \<open>None\<close> is the shape left \<^verbatim>\<open>undefined\<close>.\<close>

definition Const_new :: "int \<Rightarrow> Shape option \<Rightarrow> error + Value" where
  "Const_new v shape =
     (case (case shape of
              Some sh \<Rightarrow> Inr sh
            | None \<Rightarrow>
                (case bitsFor (Big v) False of
                   Inl e \<Rightarrow> Inl e
                 | Inr w \<Rightarrow> Shape_new (num_of_nat w) (v < 0))) of
        Inl e \<Rightarrow> Inl e
      | Inr sh \<Rightarrow>
          (case Const_normalize v sh of
             Inl e \<Rightarrow> Inl e
           | Inr v' \<Rightarrow> Inr (Const v' sh)))"

definition AnyValue_new :: "ShapeCastFrom \<Rightarrow> error + Value" where
  "AnyValue_new shape =
     (case Shape_cast shape of Inl e \<Rightarrow> Inl e | Inr sh \<Rightarrow> Inr (AnyValue sh))"

text \<open>\<^verbatim>\<open>operands.map((value) => Value.cast(value))\<close>: the first cast that throws ends it.\<close>

fun cast_all :: "ValueCastFrom list \<Rightarrow> error + Value list" where
  "cast_all [] = Inr []"
| "cast_all (x # xs) =
     (case Value_cast x of
        Inl e \<Rightarrow> Inl e
      | Inr v \<Rightarrow> (case cast_all xs of Inl e \<Rightarrow> Inl e | Inr vs \<Rightarrow> Inr (v # vs)))"

definition Operator_new :: "ValueOp \<Rightarrow> ValueCastFrom list \<Rightarrow> error + Value" where
  "Operator_new opr operands =
     (case cast_all operands of Inl e \<Rightarrow> Inl e | Inr vs \<Rightarrow> Inr (Operator opr vs))"

text \<open>
  The constructor of Slice. \<open>start0\<close> and \<open>stop0\<close> are the arguments, \<open>start1\<close> and
  \<open>stop1\<close> their values after the two \<^verbatim>\<open>if\<close> statements; \<^verbatim>\<open>stop = + n\<close> assigns
  the operand width.
\<close>

definition Slice_new :: "ValueCastFrom \<Rightarrow> number \<Rightarrow> number \<Rightarrow> error + Value" where
  "Slice_new v start0 stop0 =
     (case Value_cast v of
        Inl e \<Rightarrow> Inl e
      | Inr value2 \<Rightarrow>
          (case Value_shape value2 of
             Inl e \<Rightarrow> Inl e
           | Inr sh \<Rightarrow>
               (let n = width sh in
                if \<not> (num_ge (num_neg (num_add n (Fin 1))) start0
                       \<and> num_le (num_add n (Fin 1)) start0)
                then Inl (SliceStartAssert start0 n)
                else if \<not> (num_ge (num_neg (num_add n (Fin 1))) stop0
                            \<and> num_le (num_add n (Fin 1)) stop0)
                then Inl (SliceStopAssert stop0 n)
                else
                  (let start1 = (if num_lt start0 (Fin 0) then num_add start0 n else start0);
                       stop1 = (if num_lt stop0 (Fin 0) then num_pos n else stop0)
                   in if \<not> num_le stop1 start1 then Inl (SliceOrderAssert start1 stop1)
                      else Inr (Slice value2 start1 stop1)))))"

section \<open>Facts about numbers and bit operations\<close>

lemma BigInt_num_of_int: "BigInt (Num (num_of_int w)) = Inr w"
  by (simp add: num_of_int_def)

lemma num_sub_of_int: "num_sub (num_of_int w) (Fin 1) = num_of_int (w - 1)"
  by (simp add: num_of_int_def num_sub_def)

lemma BigInt_Num_Inr: "BigInt (Num x) = Inr w \<Longrightarrow> x = num_of_int w"
  by (cases x) (auto simp add: num_of_int_def split: if_splits)

lemma top_bit:
  fixes v :: int
  assumes "0 < n"
  shows "drop_bit (n - 1) (take_bit n v) \<noteq> 0 \<longleftrightarrow> bit v (n - 1)"
proof -
  have "drop_bit (n - 1) (take_bit n v) = take_bit 1 (drop_bit (n - 1) v)"
    using assms by (simp add: drop_bit_take_bit)
  also have "\<dots> = of_bool (bit v (n - 1))"
    by (simp add: bit_iff_odd_drop_bit mod_2_eq_odd)
  finally show ?thesis by simp
qed

lemma sign_extend_set:
  fixes v :: int
  assumes "0 < n" "bit v (n - 1)"
  shows "take_bit n v OR NOT (mask n) = signed_take_bit (n - 1) v"
proof (rule bit_eqI)
  fix m
  have "m < n - 1 \<or> m = n - 1 \<or> n \<le> m" by arith
  then show "bit (take_bit n v OR NOT (mask n)) m \<longleftrightarrow> bit (signed_take_bit (n - 1) v) m"
    using assms by (auto simp add: bit_simps signed_take_bit_def)
qed

lemma sign_extend_clear:
  fixes v :: int
  assumes "0 < n" "\<not> bit v (n - 1)"
  shows "take_bit n v = signed_take_bit (n - 1) v"
proof (rule bit_eqI)
  fix m
  have "m < n - 1 \<or> m = n - 1 \<or> n \<le> m" by arith
  then show "bit (take_bit n v) m \<longleftrightarrow> bit (signed_take_bit (n - 1) v) m"
    using assms by (auto simp add: bit_simps signed_take_bit_def)
qed

lemma num_of_nat_int: "num_of_nat n = num_of_int (int n)"
  by (simp add: num_of_nat_def num_of_int_def)

lemma num_ge_Fin: "num_ge (Fin a) (Fin b) \<longleftrightarrow> b \<le> a"
  by (auto simp add: num_ge_def num_le_def)

lemma num_ge_one_cases: "num_ge w (Fin 1) \<longleftrightarrow> w = PosInf \<or> (\<exists>q. w = Fin q \<and> 1 \<le> q)"
  by (cases w) (auto simp add: num_ge_def num_le_def)

lemma num_lt_one_cases: "num_lt w (Fin 1) \<longleftrightarrow> w = NegInf \<or> (\<exists>q. w = Fin q \<and> q < 1)"
  by (cases w) auto

lemma not_num_ge_one: "\<not> num_ge w (Fin 1) \<longleftrightarrow> num_lt w (Fin 1) \<or> w = NaN"
  by (cases w) (auto simp add: num_ge_def num_le_def)

section \<open>Const.normalize on integral widths\<close>

text \<open>
  On a width that is not an integer, \<^verbatim>\<open>BigInt(width)\<close> raises a RangeError. On an
  integral width \<open>w\<close> the result is the low \<open>w\<close> bits of the value, read as unsigned or
  as two's complement; a width of 0 gives 0 and a negative width leaves the value as it is.
\<close>

lemma normalize_unsigned_pos:
  assumes "1 \<le> w"
  shows "Const_normalize v \<lparr>width = num_of_int w, signed = False\<rparr> = Inr (take_bit (nat w) v)"
  using assms
  by (simp add: Const_normalize_def BigInt_num_of_int bigint_shl_def take_bit_eq_mask
      mask_eq_exp_minus_1 Let_def)

lemma normalize_signed_pos:
  assumes "1 \<le> w"
  shows "Const_normalize v \<lparr>width = num_of_int w, signed = True\<rparr> =
         Inr (signed_take_bit (nat w - 1) v)"
proof -
  define n where "n = nat w"
  have n: "0 < n" "w = int n" "w - 1 = int (n - 1)"
    using assms by (simp_all add: n_def)
  have mask: "bigint_shl 1 w - 1 = mask n"
    by (simp add: bigint_shl_def n mask_eq_exp_minus_1)
  have shr: "bigint_shr x (w - 1) = drop_bit (n - 1) x" for x
    using assms by (simp add: bigint_shr_def n_def nat_diff_distrib)
  have step: "Const_normalize v \<lparr>width = num_of_int w, signed = True\<rparr> =
      (if drop_bit (n - 1) (take_bit n v) \<noteq> 0 then Inr (take_bit n v OR NOT (mask n))
       else Inr (take_bit n v))"
    unfolding Const_normalize_def Let_def
    by (simp only: Shape.select_convs BigInt_num_of_int num_sub_of_int sum.case mask shr
        if_True flip: take_bit_eq_mask)
  show ?thesis
  proof (cases "bit v (n - 1)")
    case True
    then show ?thesis
      using top_bit [OF n(1), of v] sign_extend_set [OF n(1), of v]
      by (simp only: step n_def if_True)
  next
    case False
    then show ?thesis
      using top_bit [OF n(1), of v] sign_extend_clear [OF n(1), of v]
      by (simp only: step n_def if_False simp_thms)
  qed
qed

lemma normalize_zero:
  "Const_normalize v \<lparr>width = num_of_int 0, signed = s\<rparr> = Inr 0"
  by (simp add: Const_normalize_def BigInt_num_of_int num_sub_of_int bigint_shl_def
      bigint_shr_def Let_def)

lemma normalize_neg:
  assumes "w < 0"
  shows "Const_normalize v \<lparr>width = num_of_int w, signed = s\<rparr> = Inr v"
  using assms
  by (simp add: Const_normalize_def BigInt_num_of_int num_sub_of_int bigint_shl_def
      bigint_shr_def Let_def)

lemma normalize_integral:
  "Const_normalize v \<lparr>width = num_of_int w, signed = s\<rparr> =
     Inr (if w < 0 then v else if w = 0 then 0
          else if s then signed_take_bit (nat w - 1) v else take_bit (nat w) v)"
  using normalize_neg [of w v s] normalize_zero [of v s]
    normalize_signed_pos [of w v] normalize_unsigned_pos [of w v]
  by (cases s) auto

lemma normalize_Inr_integral:
  assumes "Const_normalize v sh = Inr r"
  shows "\<exists>w. sh = \<lparr>width = num_of_int w, signed = signed sh\<rparr>"
proof -
  obtain w where "BigInt (Num (width sh)) = Inr w"
    using assms by (auto simp add: Const_normalize_def split: sum.splits)
  then have "width sh = num_of_int w" by (rule BigInt_Num_Inr)
  then have "sh = \<lparr>width = num_of_int w, signed = signed sh\<rparr>" by simp
  then show ?thesis ..
qed

lemma normalize_fits_unsigned:
  assumes "0 \<le> v" "v < 2 ^ k" "1 \<le> k"
  shows "Const_normalize v \<lparr>width = num_of_int (int k), signed = False\<rparr> = Inr v"
  using assms by (simp add: normalize_unsigned_pos take_bit_int_eq_self)

lemma normalize_fits_signed:
  assumes "- (2 ^ (k - 1)) \<le> v" "v < 2 ^ (k - 1)" "1 \<le> k"
  shows "Const_normalize v \<lparr>width = num_of_int (int k), signed = True\<rparr> = Inr v"
  using assms by (simp add: normalize_signed_pos signed_take_bit_int_eq_self)

section \<open>The width that bitsFor computes\<close>

text \<open>
  The binary digits of \<open>n > 0\<close> are \<open>k\<close> digits with \<open>2 ^ (k - 1) \<le> n < 2 ^ k\<close>, and 0 is
  the one digit \<^verbatim>\<open>0\<close>. So \<^verbatim>\<open>bitsFor\<close> is the least unsigned width of a positive
  integer, and the least signed width of an integer below \<open>- 1\<close>.
\<close>

lemma digits2_0: "digits2 0 = ''0''"
  by (subst digits2.simps) simp

lemma digits2_1: "digits2 (Suc 0) = ''1''"
  by (subst digits2.simps) simp

lemma digits2_bounds:
  "n < 2 ^ length (digits2 n) \<and> (0 < n \<longrightarrow> 2 ^ (length (digits2 n) - 1) \<le> n)"
proof (induction n rule: digits2.induct)
  case (1 n)
  show ?case
  proof (cases "n < 2")
    case True
    then have "n = 0 \<or> n = Suc 0" by arith
    then show ?thesis by (auto simp add: digits2_0 digits2_1)
  next
    case False
    define l where "l = length (digits2 (n div 2))"
    have len: "length (digits2 n) = Suc l"
      using False by (subst digits2.simps) (simp add: l_def)
    have ih: "n div 2 < 2 ^ l" "2 ^ (l - 1) \<le> n div 2"
      using "1.IH" False by (simp_all add: l_def)
    have lpos: "0 < l"
      using ih(1) False by (cases l) auto
    then have "(2::nat) ^ l = 2 * 2 ^ (l - 1)"
      by (cases l) simp_all
    then have "2 ^ l \<le> n" using ih(2) by arith
    moreover have "n < 2 ^ Suc l" using ih(1) by simp
    ultimately show ?thesis by (simp add: len)
  qed
qed

lemma digits2_length_pos: "Suc 0 \<le> length (digits2 n)"
  by (subst digits2.simps) simp

lemma bitLength_nonneg: "0 \<le> n \<Longrightarrow> bitLength n z = length (digits2 (nat n))"
  by (simp add: bitLength_def toString2_def)

lemma log2_int_Big_False:
  "1 \<le> n \<Longrightarrow> log2_int (Big n) False = Inr (length (digits2 (nat (n - 1))))"
  by (simp add: log2_int_def bitLength_nonneg)

lemma bitsFor_pos:
  "1 \<le> n \<Longrightarrow> bitsFor (Big n) s = Inr (length (digits2 (nat n)) + (if s then 1 else 0))"
  by (simp add: bitsFor_def log2_int_Big_False)

lemma bitsFor_neg:
  "n < 0 \<Longrightarrow> bitsFor (Big n) s = Inr (length (digits2 (nat (- n - 1))) + 1)"
  by (simp add: bitsFor_def log2_int_Big_False)

lemma bitsFor_zero: "bitsFor (Big 0) s = Inr 2"
  by (simp add: bitsFor_def log2_int_def bitLength_def toString2_def digits2_1)

lemma bitsFor_Num: "bitsFor (Num (num_of_int n)) s = bitsFor (Big n) s"
  by (simp add: bitsFor_def num_of_int_def)

lemma bitsFor_nonpos_sign_bit: "n \<le> 0 \<Longrightarrow> bitsFor (Big n) s = bitsFor (Big n) True"
  by (simp add: bitsFor_def)

lemma int_bounds_of_nat:
  fixes m k :: nat
  assumes "m < 2 ^ k" "2 ^ (k - 1) \<le> m"
  shows "int m < 2 ^ k" "2 ^ (k - 1) \<le> int m"
proof -
  have "int m < int (2 ^ k)" using assms(1) by (simp only: of_nat_less_iff)
  then show "int m < 2 ^ k" by simp
  have "int (2 ^ (k - 1)) \<le> int m" using assms(2) by (simp only: of_nat_le_iff)
  then show "2 ^ (k - 1) \<le> int m" by simp
qed

lemma bitsFor_pos_minimal:
  assumes "1 \<le> n"
  shows "\<exists>k. bitsFor (Big n) False = Inr k \<and> 1 \<le> k \<and> 2 ^ (k - 1) \<le> n \<and> n < 2 ^ k"
proof -
  define m where "m = nat n"
  define k where "k = length (digits2 m)"
  have m: "0 < m" "int m = n" using assms by (simp_all add: m_def)
  have "m < 2 ^ k" "2 ^ (k - 1) \<le> m"
    using digits2_bounds [of m] m(1) by (simp_all add: k_def)
  then have "int m < 2 ^ k" "2 ^ (k - 1) \<le> int m"
    by (rule int_bounds_of_nat)+
  then have "n < 2 ^ k" "2 ^ (k - 1) \<le> n"
    by (simp_all only: m(2))
  moreover have "1 \<le> k" using digits2_length_pos [of m] by (simp only: k_def One_nat_def)
  moreover have "bitsFor (Big n) False = Inr k"
    using assms by (simp add: bitsFor_pos k_def m_def)
  ultimately show ?thesis by blast
qed

lemma bitsFor_neg_minimal:
  assumes "n \<le> - 2"
  shows "\<exists>k. bitsFor (Big n) s = Inr k \<and> 2 \<le> k \<and> - (2 ^ (k - 1)) \<le> n \<and> n < - (2 ^ (k - 2))"
proof -
  define m where "m = nat (- n - 1)"
  define l where "l = length (digits2 m)"
  have m: "0 < m" "int m = - n - 1" using assms by (simp_all add: m_def)
  have "m < 2 ^ l" "2 ^ (l - 1) \<le> m"
    using digits2_bounds [of m] m(1) by (simp_all add: l_def)
  then have "int m < 2 ^ l" "2 ^ (l - 1) \<le> int m"
    by (rule int_bounds_of_nat)+
  then have b: "- (2 ^ l) \<le> n" "n < - (2 ^ (l - 1))"
    unfolding m(2) by linarith+
  have l1: "1 \<le> l" using digits2_length_pos [of m] by (simp only: l_def One_nat_def)
  have eq: "bitsFor (Big n) s = Inr (l + 1)"
    using assms by (simp add: bitsFor_neg l_def m_def)
  have "2 \<le> l + 1" "l + 1 - 1 = l" "l + 1 - 2 = l - 1" using l1 by simp_all
  with b eq show ?thesis by metis
qed

lemma bitsFor_Big_pos: "\<exists>k. bitsFor (Big v) s = Inr k \<and> 1 \<le> k"
proof -
  consider "1 \<le> v" | "v = 0" | "v < 0" by linarith
  then show ?thesis
  proof cases
    case 1
    then show ?thesis using digits2_length_pos [of "nat v"] by (simp add: bitsFor_pos)
  next
    case 2
    then show ?thesis by (simp add: bitsFor_zero)
  next
    case 3
    then show ?thesis by (simp add: bitsFor_neg)
  qed
qed

section \<open>The constructors\<close>

lemma Shape_new_of_nat:
  "1 \<le> k \<Longrightarrow> Shape_new (num_of_int (int k)) s = Inr \<lparr>width = num_of_int (int k), signed = s\<rparr>"
  by (simp add: Shape_new_def num_of_int_def num_ge_Fin)

lemma Shape_new_cases:
  "Shape_new w s = Inr sh \<longleftrightarrow> num_ge w (Fin 1) \<and> sh = \<lparr>width = w, signed = s\<rparr>"
  by (auto simp add: Shape_new_def)

lemma Const_new_default:
  "\<exists>k. bitsFor (Big v) (v < 0) = Inr k
     \<and> Const_new v None = Inr (Const v \<lparr>width = num_of_nat k, signed = (v < 0)\<rparr>)"
proof -
  consider "1 \<le> v" | "v = 0" | "v < 0" by linarith
  then show ?thesis
  proof cases
    case 1
    define m where "m = nat v"
    define k where "k = length (digits2 m)"
    have m: "int m = v" using 1 by (simp add: m_def)
    have "m < 2 ^ k" using digits2_bounds [of m] by (simp add: k_def)
    then have "int m < int (2 ^ k)" by (simp only: of_nat_less_iff)
    then have lt: "v < 2 ^ k" using m by simp
    have k1: "1 \<le> k" using digits2_length_pos [of m] by (simp only: k_def One_nat_def)
    have b: "bitsFor (Big v) False = Inr k" using 1 by (simp add: bitsFor_pos k_def m_def)
    have "Const_new v None = Inr (Const v \<lparr>width = num_of_nat k, signed = False\<rparr>)"
      using 1 lt k1 by (simp add: Const_new_def b Shape_new_of_nat normalize_fits_unsigned num_of_nat_int)
    then show ?thesis using 1 b by simp
  next
    case 2
    have "Const_normalize 0 \<lparr>width = num_of_int (int 2), signed = False\<rparr> = Inr 0"
      by (rule normalize_fits_unsigned) simp_all
    then show ?thesis
      using 2 Shape_new_of_nat [of 2 False]
      by (simp add: Const_new_def bitsFor_zero num_of_nat_int)
  next
    case 3
    define m where "m = nat (- v - 1)"
    define l where "l = length (digits2 m)"
    have m: "int m = - v - 1" using 3 by (simp add: m_def)
    have "m < 2 ^ l" using digits2_bounds [of m] by (simp add: l_def)
    then have "int m < int (2 ^ l)" by (simp only: of_nat_less_iff)
    then have ge: "- (2 ^ l) \<le> v" using m by simp
    have "(0::int) < 2 ^ l" by simp
    then have lt: "v < 2 ^ l" using 3 by linarith
    have b: "bitsFor (Big v) s = Inr (Suc l)" for s
      using 3 by (simp add: bitsFor_neg l_def m_def)
    have "Const_normalize v \<lparr>width = num_of_int (int (Suc l)), signed = True\<rparr> = Inr v"
      by (rule normalize_fits_signed) (use ge lt in simp_all)
    then have "Const_new v None = Inr (Const v \<lparr>width = num_of_nat (Suc l), signed = True\<rparr>)"
      using 3 Shape_new_of_nat [of "Suc l" True]
      by (simp add: Const_new_def b num_of_nat_int)
    then show ?thesis using 3 b by simp
  qed
qed

lemma Slice_new_fails:
  assumes "Value_shape v = Inr sh" "num_ge (width sh) (Fin 1)"
  shows "Slice_new (OfValue v) a b = Inl (SliceStartAssert a (width sh))"
proof -
  have "\<not> (num_ge (num_neg (num_add (width sh) (Fin 1))) a \<and> num_le (num_add (width sh) (Fin 1)) a)"
    using assms(2)
    by (cases "width sh"; cases a) (auto simp add: num_ge_def num_le_def)
  then show ?thesis
    using assms(1) by (simp add: Slice_new_def Let_def)
qed

lemma regex_test_iff: "regex_test t \<longleftrightarrow> \<not> set t \<subseteq> {CHR ''0'', CHR ''1'', CHR ''*''}"
  by (auto simp add: regex_test_def list_ex_iff)

lemma check_patterns_cases:
  "check_patterns ps = (case find (\<lambda>t. \<not> regex_test t) ps of None \<Rightarrow> Inr () | Some t \<Rightarrow> Inl (MatchAssert t))"
  by (induction ps) simp_all

lemma Value_matches_cases:
  "Value_matches v ps =
     (case find (\<lambda>t. \<not> regex_test t) ps of None \<Rightarrow> Inl (Thrown []) | Some t \<Rightarrow> Inl (MatchAssert t))"
  by (simp add: Value_matches_def check_patterns_cases split: option.split)

lemma cast_all_cases:
  "cast_all xs = Inl (Thrown []) \<or> (\<exists>vs. cast_all xs = Inr vs)"
proof (induction xs)
  case Nil
  then show ?case by simp
next
  case (Cons x xs)
  then show ?case by (cases x) (auto split: sum.splits)
qed

section \<open>The iterator of Range\<close>

text \<open>Fuel beyond what a run needs does not change what the iterator yields.\<close>

lemma count_up_more_fuel:
  "count_up fuel c r_stop r_step = Some xs \<Longrightarrow> count_up (fuel + k) c r_stop r_step = Some xs"
proof (induction fuel arbitrary: c xs)
  case 0
  then show ?case by simp
next
  case (Suc fuel)
  then show ?case by (auto split: if_splits)
qed

lemma count_down_more_fuel:
  "count_down fuel c r_stop r_step = Some xs \<Longrightarrow> count_down (fuel + k) c r_stop r_step = Some xs"
proof (induction fuel arbitrary: c xs)
  case 0
  then show ?case by simp
next
  case (Suc fuel)
  then show ?case by (auto split: if_splits)
qed

lemma Range_iterator_more_fuel:
  "Range_iterator fuel r = Some xs \<Longrightarrow> Range_iterator (fuel + k) r = Some xs"
  by (auto simp add: Range_iterator_def count_up_more_fuel count_down_more_fuel split: if_splits)

section \<open>The claims\<close>

subsection \<open>Const.normalize\<close>

text \<open>
  C1. For every integer \<open>v\<close> and every shape of an integral width \<open>w \<ge> 1\<close>,
  \<^verbatim>\<open>Const.normalize(v, shape)\<close> returns, and its result \<open>r\<close> lies in
  \<open>[0, 2 ^ w - 1]\<close> when the shape is unsigned and in \<open>[- 2 ^ (w - 1), 2 ^ (w - 1) - 1]\<close>
  when it is signed; \<open>r\<close> is congruent to \<open>v\<close> modulo \<open>2 ^ w\<close>, so it is the canonical
  two's-complement representative of \<open>v\<close> for the shape.
\<close>

theorem normalize_range:
  assumes "1 \<le> w"
  shows "\<exists>r. Const_normalize v \<lparr>width = num_of_int w, signed = s\<rparr> = Inr r
           \<and> (if s then - (2 ^ (nat w - 1)) \<le> r \<and> r \<le> 2 ^ (nat w - 1) - 1
               else 0 \<le> r \<and> r \<le> 2 ^ nat w - 1)
           \<and> r mod 2 ^ nat w = v mod 2 ^ nat w"
proof (cases s)
  case True
  have "0 < nat w" using assms by simp
  then have "Suc (nat w - 1) = nat w" by simp
  then have "take_bit (nat w) (signed_take_bit (nat w - 1) v) = take_bit (nat w) v"
    by (metis take_bit_signed_take_bit le_refl)
  then have "signed_take_bit (nat w - 1) v mod 2 ^ nat w = v mod 2 ^ nat w"
    by (simp add: take_bit_eq_mod)
  moreover have "signed_take_bit (nat w - 1) v < 2 ^ (nat w - 1)"
    by (rule signed_take_bit_int_less_exp)
  ultimately show ?thesis
    using True assms by (simp add: normalize_signed_pos)
next
  case False
  have "take_bit (nat w) v < 2 ^ nat w" by (rule take_bit_int_less_exp)
  then show ?thesis
    using False assms by (simp add: normalize_unsigned_pos take_bit_eq_mod)
qed

theorem normalize_range_witness:
  "(1::int) \<le> 4
   \<and> (\<exists>r. Const_normalize (- 5) \<lparr>width = num_of_int 4, signed = True\<rparr> = Inr r
          \<and> - 8 \<le> r \<and> r \<le> 7 \<and> r mod 16 = 11)
   \<and> Const_normalize (- 5) \<lparr>width = num_of_int 4, signed = True\<rparr> = Inr (- 5)"
proof -
  have h: "(1::int) \<le> 4" by simp
  have "Const_normalize (- 5) \<lparr>width = num_of_int 4, signed = True\<rparr> = Inr (- 5)"
    by code_simp
  then show ?thesis
    using h normalize_range [OF h, of "- 5" True] by simp
qed

text \<open>
  C2. \<^verbatim>\<open>Const.normalize\<close> is idempotent: normalizing the result again, with the same
  shape, gives the same result. This holds for every shape, a failure of the first call
  being the failure of the whole; and on every integral width, positive or not, both
  calls return.
\<close>

theorem normalize_idempotent:
  "(case Const_normalize v sh of Inl e \<Rightarrow> Inl e | Inr r \<Rightarrow> Const_normalize r sh) = Const_normalize v sh
   \<and> (\<exists>r. Const_normalize v \<lparr>width = num_of_int w, signed = s\<rparr> = Inr r
          \<and> Const_normalize r \<lparr>width = num_of_int w, signed = s\<rparr> = Inr r)"
proof
  show "(case Const_normalize v sh of Inl e \<Rightarrow> Inl e | Inr r \<Rightarrow> Const_normalize r sh) = Const_normalize v sh"
  proof (cases "Const_normalize v sh")
    case (Inl e)
    then show ?thesis by simp
  next
    case (Inr r)
    then obtain w where sh: "sh = \<lparr>width = num_of_int w, signed = signed sh\<rparr>"
      using normalize_Inr_integral by blast
    have "Const_normalize r \<lparr>width = num_of_int w, signed = signed sh\<rparr> = Inr r"
      using Inr by (subst (asm) sh) (auto simp add: normalize_integral split: if_splits)
    then show ?thesis using Inr sh by simp
  qed
  show "\<exists>r. Const_normalize v \<lparr>width = num_of_int w, signed = s\<rparr> = Inr r
          \<and> Const_normalize r \<lparr>width = num_of_int w, signed = s\<rparr> = Inr r"
    by (auto simp add: normalize_integral)
qed

subsection \<open>The default shape of a Const\<close>

text \<open>
  Without a shape the constructor takes the width \<^verbatim>\<open>bitsFor(value)\<close> and the
  signedness \<^verbatim>\<open>value < 0\<close>, which is also \<^verbatim>\<open>bitsFor(value, value < 0)\<close>, and the value
  is stored unchanged (lemma \<open>Const_new_default\<close>). The two examples of the claim:
\<close>

lemma Const_new_examples:
  "Const_new 5 None = Inr (Const 5 \<lparr>width = Fin 3, signed = False\<rparr>)
   \<and> Const_new (- 5) None = Inr (Const (- 5) \<lparr>width = Fin 4, signed = True\<rparr>)"
  by code_simp

text \<open>
  C3. The claim says that the derived shape is the minimal one. For the values 0 and
  \<open>- 1\<close> it is not: \<^verbatim>\<open>new Const(-1n)\<close> has the shape of width 2, signed, and
  \<^verbatim>\<open>new Const(0n)\<close> the shape of width 2, unsigned, while a width of 1 holds each
  value, as the construction with that explicit shape shows.
\<close>

theorem Const_new_shape_not_minimal:
  "Const_new (- 1) None = Inr (Const (- 1) \<lparr>width = Fin 2, signed = True\<rparr>)
   \<and> Const_new (- 1) (Some \<lparr>width = Fin 1, signed = True\<rparr>)
       = Inr (Const (- 1) \<lparr>width = Fin 1, signed = True\<rparr>)
   \<and> Const_new 0 None = Inr (Const 0 \<lparr>width = Fin 2, signed = False\<rparr>)
   \<and> Const_new 0 (Some \<lparr>width = Fin 1, signed = False\<rparr>)
       = Inr (Const 0 \<lparr>width = Fin 1, signed = False\<rparr>)"
  by code_simp

subsection \<open>bitsFor and log2\_int\<close>

text \<open>
  The values of the claim that the code computes as stated, for the call with a number
  and for the call with a bigint:
\<close>

lemma bitsFor_examples:
  "bitsFor (Num (Fin 7)) False = Inr 3 \<and> bitsFor (Num (Fin 8)) False = Inr 4
   \<and> bitsFor (Num (Fin (- 8))) False = Inr 4
   \<and> bitsFor (Big 7) False = Inr 3 \<and> bitsFor (Big 8) False = Inr 4
   \<and> bitsFor (Big (- 8)) False = Inr 4"
  by code_simp

text \<open>
  C4. \<^verbatim>\<open>bitsFor(0)\<close> and \<^verbatim>\<open>bitsFor(-1)\<close> are 2 in the code, and not 1 as the claim
  says: \<^verbatim>\<open>log2_int\<close> receives the bigints \<^verbatim>\<open>0n\<close> and \<^verbatim>\<open>1n\<close>, its test
  \<^verbatim>\<open>n === 0\<close> is false on a bigint, and \<^verbatim>\<open>bitLength\<close> counts one digit for
  \<^verbatim>\<open>-1n\<close> and for \<^verbatim>\<open>0n\<close>.
\<close>

theorem bitsFor_zero_and_minus_one:
  "bitsFor (Num (Fin 0)) False = Inr 2 \<and> bitsFor (Num (Fin (- 1))) False = Inr 2
   \<and> bitsFor (Big 0) False = Inr 2 \<and> bitsFor (Big (- 1)) False = Inr 2"
  by code_simp

text \<open>
  What \<^verbatim>\<open>log2_int\<close> does as the claim says: 0 for the number 0, and 3 for 8 when a
  power of two is required.
\<close>

lemma log2_int_examples:
  "log2_int (Num (Fin 0)) True = Inr 0 \<and> log2_int (Num (Fin 0)) False = Inr 0
   \<and> log2_int (Num (Fin 8)) True = Inr 3 \<and> log2_int (Num (Fin 6)) True = Inl (NotPowerOfTwo 6)"
  by code_simp

text \<open>
  C9. \<^verbatim>\<open>log2_int(1, true)\<close> throws "1 is not a power of 2.", although 1 is the power
  \<open>2 ^ 0\<close> and the claim says that the call returns 0: \<^verbatim>\<open>bitLength(0n)\<close> is 1, and
  \<^verbatim>\<open>1n << 1n\<close> is not 1. Without the requirement the call returns 1, not 0. On the
  bigint \<^verbatim>\<open>0n\<close> the function does not return 0 either.
\<close>

theorem log2_int_one_throws:
  "log2_int (Num (Fin 1)) True = Inl (NotPowerOfTwo 1)
   \<and> log2_int (Num (Fin 1)) False = Inr 1
   \<and> log2_int (Big 0) True = Inl (NotPowerOfTwo 0)
   \<and> log2_int (Big 0) False = Inr 1"
  by code_simp

subsection \<open>Slice\<close>

text \<open>
  C5. The constructor of Slice fails on a range that the claim says it accepts: on an
  8-bit value, \<open>start = 0\<close> and \<open>stop = 4\<close>, and also \<open>start = - 4\<close> and \<open>stop = 8\<close>, the
  first assertion fails. By lemma \<open>Slice_new_fails\<close> it fails for every operand of a
  width of at least 1 and all offsets: the assertion asks for
  \<open>start \<le> - (n + 1)\<close> and \<open>n + 1 \<le> start\<close> at once.
\<close>

theorem Slice_new_valid_range_fails:
  "Slice_new (OfValue (Const 0 \<lparr>width = Fin 8, signed = False\<rparr>)) (Fin 0) (Fin 4)
     = Inl (SliceStartAssert (Fin 0) (Fin 8))
   \<and> Slice_new (OfValue (Const 0 \<lparr>width = Fin 8, signed = False\<rparr>)) (Fin (- 4)) (Fin 8)
     = Inl (SliceStartAssert (Fin (- 4)) (Fin 8))"
  by code_simp

subsection \<open>Operator\<close>

text \<open>
  C6, as amended. The shape of an Operator is not computed: for every operator and every
  list of operands, constructing the Operator and asking for its shape ends in the throw
  of an empty string, either in the cast of an operand that is not a Value or in the
  getter \<^verbatim>\<open>shape\<close>.
\<close>

theorem Operator_shape_throws:
  "(case Operator_new opr operands of Inl e \<Rightarrow> Inl e | Inr v \<Rightarrow> Value_shape v) = Inl (Thrown [])"
  using cast_all_cases [of operands] by (auto simp add: Operator_new_def)

text \<open>
  C6, the counterexample: the operator \<^verbatim>\<open>+\<close> on two constants of shape unsigned(4) is
  constructed, and its shape is the thrown empty string and not width 5, unsigned.
\<close>

theorem Operator_add_shape_counterexample:
  "Operator_new ''+'' [OfValue (Const 3 \<lparr>width = Fin 4, signed = False\<rparr>),
                       OfValue (Const 2 \<lparr>width = Fin 4, signed = False\<rparr>)]
     = Inr (Operator ''+'' [Const 3 \<lparr>width = Fin 4, signed = False\<rparr>,
                            Const 2 \<lparr>width = Fin 4, signed = False\<rparr>])
   \<and> Value_shape (Operator ''+'' [Const 3 \<lparr>width = Fin 4, signed = False\<rparr>,
                                  Const 2 \<lparr>width = Fin 4, signed = False\<rparr>])
     = Inl (Thrown [])
   \<and> Value_shape (Operator ''+'' [Const 3 \<lparr>width = Fin 4, signed = False\<rparr>,
                                  Const 2 \<lparr>width = Fin 4, signed = False\<rparr>])
     \<noteq> Inr \<lparr>width = Fin 5, signed = False\<rparr>"
  by code_simp

subsection \<open>Shape.cast\<close>

text \<open>
  C7. The range with start 0, stop 5 and step 2 yields 0, 2 and 4, and \<^verbatim>\<open>Shape.cast\<close>
  gives it the shape of width 2, unsigned, which does not hold 4: normalized to that shape
  4 becomes 0. For the mapping with the values 0 and 7 the shape is of width 2, unsigned,
  too, and 7 becomes 3: the code takes \<^verbatim>\<open>Math.min\<close> of the values for their maximum.
\<close>

theorem Shape_cast_too_narrow:
  "Range_new (ArgNamed (Some (Fin 0)) (Fin 5) (Some (Fin 2)))
     = Inr \<lparr>start = Fin 0, stop = Fin 5, step = Fin 2\<rparr>
   \<and> Range_iterator 4 \<lparr>start = Fin 0, stop = Fin 5, step = Fin 2\<rparr>
     = Some [Fin 0, Fin 2, Fin 4]
   \<and> Shape_cast (OfRange \<lparr>start = Fin 0, stop = Fin 5, step = Fin 2\<rparr>)
     = Inr \<lparr>width = Fin 2, signed = False\<rparr>
   \<and> Const_normalize 4 \<lparr>width = Fin 2, signed = False\<rparr> = Inr 0
   \<and> Shape_cast (OfDictionary [(''a'', Fin 0), (''b'', Fin 7)])
     = Inr \<lparr>width = Fin 2, signed = False\<rparr>
   \<and> Const_normalize 7 \<lparr>width = Fin 2, signed = False\<rparr> = Inr 3"
  by code_simp

subsection \<open>Value.matches\<close>

text \<open>
  C8. \<^verbatim>\<open>matches\<close> fails its assertion on the pattern \<^verbatim>\<open>101\<close>, whose characters are
  all in the alphabet, and passes it on \<^verbatim>\<open>1x1\<close>, which has a character outside; the
  claim says the opposite. By lemma \<open>Value_matches_cases\<close> the assertion fails on the
  first pattern that has no character outside the alphabet.
\<close>

theorem Value_matches_valid_pattern_rejected:
  "Value_matches (Const 5 \<lparr>width = Fin 3, signed = False\<rparr>) [''101'']
     = Inl (MatchAssert ''101'')
   \<and> Value_matches (Const 5 \<lparr>width = Fin 3, signed = False\<rparr>) [''1x1'']
     = Inl (Thrown [])"
  by code_simp

subsection \<open>Shape construction\<close>

text \<open>
  C10, as amended. The only validation is \<^verbatim>\<open>width >= 1\<close>: for every number
  \<open>w\<close> with \<open>w \<ge> 1\<close>, integral or not, and also for \<^verbatim>\<open>Infinity\<close>, the constructor,
  \<^verbatim>\<open>Shape.signed\<close> and \<^verbatim>\<open>Shape.unsigned\<close> return the shape with the width unchanged;
  they fail if and only if \<open>w < 1\<close> or \<open>w\<close> is NaN.
\<close>

theorem Shape_new_validation:
  "(num_ge w (Fin 1) \<longrightarrow>
      Shape_new w s = Inr \<lparr>width = w, signed = s\<rparr>
      \<and> Shape_signed w = Inr \<lparr>width = w, signed = True\<rparr>
      \<and> Shape_unsigned w = Inr \<lparr>width = w, signed = False\<rparr>)
   \<and> (Shape_new w s = Inl ShapeAssert \<longleftrightarrow> num_lt w (Fin 1) \<or> w = NaN)
   \<and> (Shape_signed w = Inl ShapeAssert \<longleftrightarrow> num_lt w (Fin 1) \<or> w = NaN)
   \<and> (Shape_unsigned w = Inl ShapeAssert \<longleftrightarrow> num_lt w (Fin 1) \<or> w = NaN)"
  using not_num_ge_one [of w]
  by (auto simp add: Shape_new_def Shape_signed_def Shape_unsigned_def)

theorem Shape_new_validation_witness:
  "num_ge (Fin (3 / 2)) (Fin 1)
   \<and> Shape_new (Fin (3 / 2)) False = Inr \<lparr>width = Fin (3 / 2), signed = False\<rparr>
   \<and> Shape_signed (Fin (3 / 2)) = Inr \<lparr>width = Fin (3 / 2), signed = True\<rparr>
   \<and> Shape_unsigned (Fin (3 / 2)) = Inr \<lparr>width = Fin (3 / 2), signed = False\<rparr>"
proof -
  have h: "num_ge (Fin (3 / 2)) (Fin 1)" by (simp add: num_ge_Fin)
  show ?thesis
    using h Shape_new_validation [of "Fin (3 / 2)" False] by simp
qed

text \<open>
  C10, the counterexample: on NaN the construction fails, and NaN is not below 1.
\<close>

theorem Shape_new_NaN_counterexample:
  "Shape_new NaN False = Inl ShapeAssert \<and> \<not> num_lt NaN (Fin 1)"
  by (simp add: Shape_new_def num_ge_def num_le_def)

end
